theory Spec2Isabelle
  imports Main "HOL-Library.AList"
begin

section \<open>Python strings and dictionaries\<close>

text \<open>
  A Python \<open>str\<close> is modelled as a \<open>string\<close>: each \<open>char\<close> stands for one code
  point below 256. A \<open>dict\<close> is an association list with distinct keys in insertion
  order; \<open>d[k] = v\<close> is \<open>AList.update k v d\<close> (an existing key keeps its place, a new
  one goes to the end) and \<open>d.get(k, dflt)\<close> is \<open>dict_get d k dflt\<close>.
\<close>

definition dict_get :: "('k \<times> 'v) list \<Rightarrow> 'k \<Rightarrow> 'v \<Rightarrow> 'v" where
  "dict_get d k dflt = (case map_of d k of None \<Rightarrow> dflt | Some v \<Rightarrow> v)"

text \<open>\<open>s.startswith(p)\<close>, \<open>s.endswith(p)\<close> and \<open>p in s\<close>.\<close>

definition startswith :: "string \<Rightarrow> string \<Rightarrow> bool" where
  "startswith s p = (take (length p) s = p)"

definition endswith :: "string \<Rightarrow> string \<Rightarrow> bool" where
  "endswith s p = (length p \<le> length s \<and> drop (length s - length p) s = p)"

fun str_contains :: "string \<Rightarrow> string \<Rightarrow> bool" where
  "str_contains [] p = (p = [])"
| "str_contains (c # cs) p = (startswith (c # cs) p \<or> str_contains cs p)"

text \<open>\<open>s.split(sep)\<close> for a one-character separator: one field more than separators.\<close>

fun split_from :: "char \<Rightarrow> string \<Rightarrow> string \<Rightarrow> string list" where
  "split_from sep cur [] = [rev cur]"
| "split_from sep cur (c # cs) =
     (if c = sep then rev cur # split_from sep [] cs else split_from sep (c # cur) cs)"

definition split_on :: "char \<Rightarrow> string \<Rightarrow> string list" where
  "split_on sep s = split_from sep [] s"

text \<open>
  \<open>s.rsplit(sep, 1)\<close> and \<open>s.split(sep, 1)\<close> for a string that contains \<open>sep\<close> (the
  source calls them only under that test): the parts around the last, respectively the
  first, separator.
\<close>

definition rsplit1 :: "char \<Rightarrow> string \<Rightarrow> string \<times> string" where
  "rsplit1 sep s =
     (rev (drop 1 (dropWhile (\<lambda>c. c \<noteq> sep) (rev s))), rev (takeWhile (\<lambda>c. c \<noteq> sep) (rev s)))"

definition split1 :: "char \<Rightarrow> string \<Rightarrow> string \<times> string" where
  "split1 sep s = (takeWhile (\<lambda>c. c \<noteq> sep) s, drop 1 (dropWhile (\<lambda>c. c \<noteq> sep) s))"

text \<open>
  \<open>s.split()\<close>: fields between runs of whitespace, no empty field. The whitespace code
  points below 256 are 9 to 13, 28 to 32, 133 and 160.
\<close>

definition py_isspace :: "char \<Rightarrow> bool" where
  "py_isspace c = (of_char c \<in> {9, 10, 11, 12, 13, 28, 29, 30, 31, 32, 133, 160 :: nat})"

fun split_fields :: "string \<Rightarrow> string \<Rightarrow> string list" where
  "split_fields cur [] = (if cur = [] then [] else [rev cur])"
| "split_fields cur (c # cs) =
     (if py_isspace c then (if cur = [] then split_fields [] cs else rev cur # split_fields [] cs)
      else split_fields (c # cur) cs)"

definition split_ws :: "string \<Rightarrow> string list" where
  "split_ws s = split_fields [] s"

text \<open>
  \<open>s.splitlines()\<close>: the line boundaries below 256 are LF, CR, CR LF, 11, 12, 28, 29, 30
  and 133; a boundary at the very end opens no further line.
\<close>

definition is_linebreak :: "char \<Rightarrow> bool" where
  "is_linebreak c = (of_char c \<in> {10, 11, 12, 13, 28, 29, 30, 133 :: nat})"

fun split_lines :: "string \<Rightarrow> string \<Rightarrow> string list" where
  "split_lines cur [] = (if cur = [] then [] else [rev cur])"
| "split_lines cur [c] = (if is_linebreak c then [rev cur] else [rev (c # cur)])"
| "split_lines cur (c # d # cs) =
     (if of_char c = (13::nat) \<and> of_char d = (10::nat) then rev cur # split_lines [] cs
      else if is_linebreak c then rev cur # split_lines [] (d # cs)
      else split_lines (c # cur) (d # cs))"

definition splitlines :: "string \<Rightarrow> string list" where
  "splitlines s = split_lines [] s"

section \<open>Parsed documents\<close>

text \<open>
  What \<open>ET.parse(...).getroot()\<close> returns: an element has a tag (\<open>{uri}local\<close> for a
  namespaced element, the bare name otherwise), its attribute dictionary and its
  children. \<open>iter\<close> is \<open>Element.iter()\<close>: the element itself, then its descendants in
  document order.
\<close>

datatype element = Element (tag: string) (attrib: "(string \<times> string) list") (children: "element list")

fun iter :: "element \<Rightarrow> element list" where
  "iter (Element t a cs) = Element t a cs # concat (map iter cs)"

section \<open>\<open>_analyze_xml_file\<close>\<close>

record connector_info =
  prefix :: string
  connector_name :: string

type_synonym namespace_mappings = "(string \<times> connector_info) list"

definition schemaLocation :: string where
  "schemaLocation = ''{http://www.w3.org/2001/XMLSchema-instance}schemaLocation''"

definition mule_uri :: "string \<Rightarrow> bool" where
  "mule_uri uri = str_contains uri ''mulesoft.org/schema/mule''"

definition last_segment :: "string \<Rightarrow> string" where
  "last_segment uri = last (split_on CHR ''/'' uri)"

text \<open>
  The inner loop over \<open>root.attrib.items()\<close> with its \<open>break\<close>: the prefix of the first
  \<open>xmlns:\<close> attribute whose value is the namespace URI.
\<close>

fun find_prefix :: "(string \<times> string) list \<Rightarrow> string \<Rightarrow> string option" where
  "find_prefix [] namespace_uri = None"
| "find_prefix ((attr_name, attr_value) # rest) namespace_uri =
     (if attr_value = namespace_uri \<and> startswith attr_name ''xmlns:''
      then Some (split_on CHR '':'' attr_name ! 1)
      else find_prefix rest namespace_uri)"

text \<open>
  The loop \<open>for i in range(0, len(parts), 2): if i + 1 < len(parts)\<close> over the
  schema-location parts: the parts at even positions that have a successor.
\<close>

fun mappings_from_schema ::
  "(string \<times> string) list \<Rightarrow> string list \<Rightarrow> namespace_mappings \<Rightarrow> namespace_mappings" where
  "mappings_from_schema atts (namespace_uri # location # rest) m =
     mappings_from_schema atts rest
       (if mule_uri namespace_uri then
          (case find_prefix atts namespace_uri of
             Some p \<Rightarrow> AList.update namespace_uri
               \<lparr>prefix = p, connector_name = last_segment namespace_uri\<rparr> m
           | None \<Rightarrow> m)
        else m)"
| "mappings_from_schema atts parts m = m"

fun mappings_from_xmlns ::
  "(string \<times> string) list \<Rightarrow> namespace_mappings \<Rightarrow> namespace_mappings" where
  "mappings_from_xmlns [] m = m"
| "mappings_from_xmlns ((key, val) # rest) m =
     mappings_from_xmlns rest
       (if startswith key ''xmlns:'' \<and> mule_uri val then
          AList.update val \<lparr>prefix = split_on CHR '':'' key ! 1, connector_name = last_segment val\<rparr> m
        else m)"

definition resolve_namespaces :: "element \<Rightarrow> namespace_mappings" where
  "resolve_namespaces root =
     (let schema_locations = dict_get (attrib root) schemaLocation [];
          m = (if schema_locations \<noteq> []
               then mappings_from_schema (attrib root) (split_ws schema_locations) []
               else [])
      in mappings_from_xmlns (attrib root) m)"

text \<open>The namespace key and local name under which one element is tallied.\<close>

definition classify_tag :: "namespace_mappings \<Rightarrow> string \<Rightarrow> string \<times> string" where
  "classify_tag m tg =
     (if CHR ''}'' \<in> set tg then
        (let (ns, local_name) = rsplit1 CHR ''}'' tg;
             namespace_uri = drop 1 ns
         in (case map_of m namespace_uri of
               Some info \<Rightarrow> (connector_name info @ '' ('' @ prefix info @ '':)'', local_name)
             | None \<Rightarrow>
                 if mule_uri namespace_uri
                 then (last_segment namespace_uri @ '' (ns:)'', local_name)
                 else (''other ('' @ namespace_uri @ '')'', local_name)))
      else (''default'', tg))"

type_synonym tag_tally = "(string \<times> (string \<times> int) list) list"

definition tally_element :: "namespace_mappings \<Rightarrow> element \<Rightarrow> tag_tally \<Rightarrow> tag_tally" where
  "tally_element m e tags =
     (let (namespace_key, local_name) = classify_tag m (tag e);
          inner = dict_get tags namespace_key []
      in AList.update namespace_key
           (AList.update local_name (dict_get inner local_name 0 + 1) inner) tags)"

definition is_flow :: "string \<Rightarrow> bool" where
  "is_flow tg = (endswith tg ''}flow'' \<or> tg = ''flow'')"

definition is_subflow :: "string \<Rightarrow> bool" where
  "is_subflow tg = (endswith tg ''}sub-flow'' \<or> tg = ''sub-flow'')"

definition count_flow :: "element \<Rightarrow> int \<times> int \<Rightarrow> int \<times> int" where
  "count_flow e c =
     (case c of (flows_count, subflows_count) \<Rightarrow>
        if is_flow (tag e) then (flows_count + 1, subflows_count)
        else if is_subflow (tag e) then (flows_count, subflows_count + 1)
        else (flows_count, subflows_count))"

record file_analysis =
  line_count :: int
  flows :: int
  subflows :: int
  components :: int
  xml_tags_by_namespace :: tag_tally

definition empty_file_analysis :: file_analysis where
  "empty_file_analysis =
     \<lparr>line_count = 0, flows = 0, subflows = 0, components = 0, xml_tags_by_namespace = []\<rparr>"

text \<open>
  A configuration file as the analyzer sees it: \<open>content\<close> is what reading it as UTF-8
  gives (\<open>None\<close> when that raises \<open>UnicodeDecodeError\<close>), \<open>document\<close> is what \<open>ET.parse\<close>
  gives (\<open>None\<close> when that raises \<open>ParseError\<close>). Both exceptions are caught by the
  function that meets them, which prints a warning.
\<close>

record xml_file =
  file_name :: string
  file_path :: string
  content :: "string option"
  document :: "element option"

datatype warning =
    CouldNotParseXmlFile string
  | CouldNotExtractConnectors string
  | CouldNotReadForDataWeave string

definition analyze_document :: "element \<Rightarrow> file_analysis \<Rightarrow> file_analysis" where
  "analyze_document root analysis =
     (let m = resolve_namespaces root;
          (flows_count, subflows_count) = fold count_flow (iter root) (0, 0)
      in analysis
           \<lparr>xml_tags_by_namespace := fold (tally_element m) (iter root) [],
            flows := flows_count,
            subflows := subflows_count,
            components := int (length (iter root)) - 1\<rparr>)"

definition analyze_xml_file :: "xml_file \<Rightarrow> file_analysis \<times> warning list" where
  "analyze_xml_file f =
     (case content f of
        None \<Rightarrow> (empty_file_analysis, [CouldNotParseXmlFile (file_path f)])
      | Some text \<Rightarrow>
          (let analysis = empty_file_analysis\<lparr>line_count := int (length (splitlines text))\<rparr>
           in (case document f of
                 None \<Rightarrow> (analysis, [CouldNotParseXmlFile (file_path f)])
               | Some root \<Rightarrow> (analyze_document root analysis, []))))"

section \<open>\<open>_extract_connectors_from_xml\<close>\<close>

text \<open>The part of a project's analysis that the configuration files write.\<close>

record file_entry =
  filename :: string
  size_lines :: int
  entry_flows :: int
  entry_subflows :: int
  entry_components :: int
  entry_tags :: tag_tally

text \<open>
  \<open>unique_connectors\<close> is rebuilt as \<open>list(set(...))\<close> after every file, so the order
  of the list is not determined by the program; the field is modelled by its set.
  \<open>printed\<close> collects the warnings written to standard output.
\<close>

record project_analysis =
  configuration_files :: "file_entry list"
  total_flows :: int
  total_subflows :: int
  flows_per_file :: "(string \<times> int) list"
  unique_connectors :: "string set"
  connector_usage_count :: "(string \<times> int) list"
  component_types :: "(string \<times> int) list"
  total_components :: int
  inline_dw_expressions_count :: int
  complex_transformations :: int
  total_dw_lines :: int
  large_files :: "(string \<times> int) list"
  printed :: "warning list"

definition reserved_names :: "string list" where
  "reserved_names = [''core'', ''documentation'']"

fun namespaces_from_schema ::
  "(string \<times> string) list \<Rightarrow> string list \<Rightarrow> (string \<times> string) list \<Rightarrow> (string \<times> string) list" where
  "namespaces_from_schema atts (namespace_uri # location # rest) ns =
     namespaces_from_schema atts rest
       (if mule_uri namespace_uri \<and> last_segment namespace_uri \<notin> set reserved_names then
          (case find_prefix atts namespace_uri of
             Some p \<Rightarrow> AList.update p (last_segment namespace_uri) ns
           | None \<Rightarrow> ns)
        else ns)"
| "namespaces_from_schema atts parts ns = ns"

fun namespaces_from_xmlns ::
  "(string \<times> string) list \<Rightarrow> (string \<times> string) list \<Rightarrow> (string \<times> string) list" where
  "namespaces_from_xmlns [] ns = ns"
| "namespaces_from_xmlns ((key, val) # rest) ns =
     namespaces_from_xmlns rest
       (if startswith key ''xmlns:'' \<and> mule_uri val \<and> last_segment val \<notin> set reserved_names
        then AList.update (split_on CHR '':'' key ! 1) (last_segment val) ns
        else ns)"

definition declared_namespaces :: "element \<Rightarrow> (string \<times> string) list" where
  "declared_namespaces root =
     (let schema_locations = dict_get (attrib root) schemaLocation [];
          ns = (if schema_locations \<noteq> []
                then namespaces_from_schema (attrib root) (split_ws schema_locations) []
                else [])
      in namespaces_from_xmlns (attrib root) ns)"

text \<open>
  The connector an element is attributed to, with its local name. \<open>None\<close> is Python's
  \<open>None\<close>; the test \<open>if connector_name:\<close> also rejects the empty string.
\<close>

definition connector_of :: "(string \<times> string) list \<Rightarrow> string \<Rightarrow> string option \<times> string" where
  "connector_of namespaces tg =
     (if CHR ''}'' \<in> set tg then
        (let (ns, local_name) = rsplit1 CHR ''}'' tg;
             namespace_uri = drop 1 ns
         in (if mule_uri namespace_uri
             then (if last_segment namespace_uri \<in> set reserved_names then Some ''core''
                   else Some (last_segment namespace_uri), local_name)
             else (None, local_name)))
      else if CHR '':'' \<in> set tg then
        (let (p, local_name) = split1 CHR '':'' tg in (map_of namespaces p, local_name))
      else (Some ''core'', tg))"

definition truthy :: "string option \<Rightarrow> bool" where
  "truthy c = (case c of None \<Rightarrow> False | Some s \<Rightarrow> s \<noteq> [])"

definition bump :: "string \<Rightarrow> (string \<times> int) list \<Rightarrow> (string \<times> int) list" where
  "bump k d = AList.update k (dict_get d k 0 + 1) d"

definition attribute_element ::
  "(string \<times> string) list \<Rightarrow> element \<Rightarrow> project_analysis \<Rightarrow> project_analysis" where
  "attribute_element namespaces e analysis =
     (case connector_of namespaces (tag e) of (c, local_name) \<Rightarrow>
        if truthy c then
          (let connector = the c;
               component_type = (if connector \<noteq> ''core'' then connector @ '':'' @ local_name
                                 else local_name)
           in analysis
                \<lparr>connector_usage_count := bump connector (connector_usage_count analysis),
                 component_types := bump component_type (component_types analysis)\<rparr>)
        else analysis)"

definition extract_connectors_from_xml :: "xml_file \<Rightarrow> project_analysis \<Rightarrow> project_analysis" where
  "extract_connectors_from_xml f analysis =
     (case document f of
        None \<Rightarrow> analysis\<lparr>printed := printed analysis @ [CouldNotExtractConnectors (file_path f)]\<rparr>
      | Some root \<Rightarrow>
          (let namespaces = declared_namespaces root;
               counted = fold (attribute_element namespaces) (iter root) analysis
           in counted\<lparr>unique_connectors := unique_connectors counted \<union> set (map snd namespaces)\<rparr>))"

section \<open>\<open>_analyze_dataweave_in_xml\<close>\<close>

text \<open>
  The three patterns of \<open>dw_patterns\<close>, in the order of the source: the bracketed
  expression, the CDATA-wrapped expression, the transformation block. The regular
  expression engine is the standard library's: \<open>findall\<close> stands for
  \<open>re.findall(pattern, content, re.DOTALL | re.IGNORECASE)\<close> and is a parameter.
\<close>

datatype dw_pattern = SimpleExpression | CDataExpression | Transformation

definition dw_patterns :: "dw_pattern list" where
  "dw_patterns = [SimpleExpression, CDataExpression, Transformation]"

definition match_lines :: "string \<Rightarrow> int" where
  "match_lines m = int (length (filter (\<lambda>c. of_char c = (10::nat)) m)) + 1"

definition scan_match :: "string \<Rightarrow> int \<times> int \<Rightarrow> int \<times> int" where
  "scan_match m c =
     (case c of (complex, dw_lines) \<Rightarrow>
        (if match_lines m > 10 then complex + 1 else complex, dw_lines + match_lines m))"

definition scan_pattern ::
  "(dw_pattern \<Rightarrow> string \<Rightarrow> string list) \<Rightarrow> string \<Rightarrow> dw_pattern \<Rightarrow> int \<times> int \<times> int \<Rightarrow> int \<times> int \<times> int" where
  "scan_pattern findall text pat c =
     (case c of (total_inline_dw, complex, dw_lines) \<Rightarrow>
        (let matches = findall pat text
         in (total_inline_dw + int (length matches), fold scan_match matches (complex, dw_lines))))"

text \<open>The three local counters after the loop over the patterns.\<close>

definition scan_text :: "(dw_pattern \<Rightarrow> string \<Rightarrow> string list) \<Rightarrow> string \<Rightarrow> int \<times> int \<times> int" where
  "scan_text findall text = fold (scan_pattern findall text) dw_patterns (0, 0, 0)"

definition analyze_dataweave_in_xml ::
  "(dw_pattern \<Rightarrow> string \<Rightarrow> string list) \<Rightarrow> xml_file \<Rightarrow> project_analysis \<Rightarrow> project_analysis" where
  "analyze_dataweave_in_xml findall f analysis =
     (case content f of
        None \<Rightarrow> analysis\<lparr>printed := printed analysis @ [CouldNotReadForDataWeave (file_path f)]\<rparr>
      | Some text \<Rightarrow>
          (case scan_text findall text of
             (total_inline_dw, complex, dw_lines) \<Rightarrow>
               analysis
                 \<lparr>inline_dw_expressions_count := inline_dw_expressions_count analysis + total_inline_dw,
                  complex_transformations := complex_transformations analysis + complex,
                  total_dw_lines := total_dw_lines analysis + dw_lines\<rparr>))"

section \<open>\<open>_analyze_configuration_files\<close>\<close>

definition record_file :: "xml_file \<Rightarrow> project_analysis \<Rightarrow> project_analysis" where
  "record_file f analysis =
     (case analyze_xml_file f of (fa, ws) \<Rightarrow>
        (let a1 = analysis
               \<lparr>printed := printed analysis @ ws,
                configuration_files := configuration_files analysis @
                  [\<lparr>filename = file_name f, size_lines = line_count fa, entry_flows = flows fa,
                    entry_subflows = subflows fa, entry_components = components fa,
                    entry_tags = xml_tags_by_namespace fa\<rparr>],
                total_flows := total_flows analysis + flows fa,
                total_subflows := total_subflows analysis + subflows fa,
                flows_per_file := AList.update (file_name f) (flows fa) (flows_per_file analysis),
                total_components := total_components analysis + components fa\<rparr>
         in if line_count fa > 1000
            then a1\<lparr>large_files := large_files a1 @ [(file_name f, line_count fa)]\<rparr>
            else a1))"

definition analyze_one_file ::
  "(dw_pattern \<Rightarrow> string \<Rightarrow> string list) \<Rightarrow> xml_file \<Rightarrow> project_analysis \<Rightarrow> project_analysis" where
  "analyze_one_file findall f analysis =
     analyze_dataweave_in_xml findall f (extract_connectors_from_xml f (record_file f analysis))"

text \<open>The configuration part of the record \<open>analyze_project\<close> starts from.\<close>

definition new_project :: project_analysis where
  "new_project =
     \<lparr>configuration_files = [], total_flows = 0, total_subflows = 0, flows_per_file = [],
      unique_connectors = {}, connector_usage_count = [], component_types = [],
      total_components = 0, inline_dw_expressions_count = 0, complex_transformations = 0,
      total_dw_lines = 0, large_files = [], printed = []\<rparr>"

text \<open>
  \<open>xml_files\<close> is the result of the glob under \<open>src/main/mule\<close>, empty when the
  directory is missing.
\<close>

definition analyze_configuration_files ::
  "(dw_pattern \<Rightarrow> string \<Rightarrow> string list) \<Rightarrow> xml_file list \<Rightarrow> project_analysis \<Rightarrow> project_analysis" where
  "analyze_configuration_files findall xml_files analysis =
     fold (analyze_one_file findall) xml_files analysis"

section \<open>Project discovery\<close>

text \<open>
  The directory tree under the repository folder: \<open>iterdir\<close> lists the entries of a
  directory, each a file or a directory with its own entries.
\<close>

datatype entry = File string | Dir string "entry list"

fun entry_name :: "entry \<Rightarrow> string" where
  "entry_name (File n) = n"
| "entry_name (Dir n es) = n"

text \<open>\<open>(directory / n1 / ... / nk).exists()\<close>, for the entries of \<open>directory\<close>.\<close>

fun path_exists :: "entry list \<Rightarrow> string list \<Rightarrow> bool" where
  "path_exists es [] = True"
| "path_exists es (n # rest) =
     (case find (\<lambda>e. entry_name e = n) es of
        None \<Rightarrow> False
      | Some (File m) \<Rightarrow> rest = []
      | Some (Dir m sub) \<Rightarrow> path_exists sub rest)"

definition is_mulesoft_project :: "entry list \<Rightarrow> bool" where
  "is_mulesoft_project es =
     (path_exists es [''pom.xml''] \<or> path_exists es [''mule-artifact.json'']
      \<or> path_exists es [''src'', ''main'', ''mule''])"

fun join :: "string \<Rightarrow> string list \<Rightarrow> string" where
  "join sep [] = []"
| "join sep [x] = x"
| "join sep (x # y # ys) = x @ sep @ join sep (y # ys)"

text \<open>
  What the walker records of a project it reports: \<open>relative_path\<close> holds the parts of
  \<open>item.relative_to(base_path)\<close>.
\<close>

record discovered =
  relative_path :: "string list"
  project_display_name :: string
  project_source :: string

definition report :: "string list \<Rightarrow> discovered" where
  "report parts =
     (if length parts > 1
      then \<lparr>relative_path = parts, project_display_name = join ''/'' parts,
            project_source = join ''/'' (butlast parts)\<rparr>
      else \<lparr>relative_path = parts, project_display_name = last parts,
            project_source = ''local''\<rparr>)"

definition filtering :: "string list option \<Rightarrow> bool" where
  "filtering target_projects = (case target_projects of None \<Rightarrow> False | Some ts \<Rightarrow> ts \<noteq> [])"

text \<open>
  \<open>current\<close> holds the parts of \<open>current_path.relative_to(base_path)\<close> and \<open>items\<close> the
  entries of \<open>current_path\<close>; \<open>scan_items\<close> is the loop over \<open>iterdir()\<close> and
  \<open>visit_item\<close> its body.
\<close>

function find_mulesoft_projects_recursive ::
    "nat \<Rightarrow> string list option \<Rightarrow> string list \<Rightarrow> entry list \<Rightarrow> discovered list"
  and scan_items ::
    "nat \<Rightarrow> string list option \<Rightarrow> string list \<Rightarrow> entry list \<Rightarrow> discovered list"
  and visit_item ::
    "nat \<Rightarrow> string list option \<Rightarrow> string list \<Rightarrow> entry \<Rightarrow> discovered list" where
  "find_mulesoft_projects_recursive max_depth targets current items =
     (if length current > max_depth then [] else scan_items max_depth targets current items)"
| "scan_items max_depth targets current [] = []"
| "scan_items max_depth targets current (item # items) =
     visit_item max_depth targets current item @ scan_items max_depth targets current items"
| "visit_item max_depth targets current (File n) = []"
| "visit_item max_depth targets current (Dir n es) =
     (if startswith n ''.'' then []
      else if is_mulesoft_project es then
        (if filtering targets \<and> n \<notin> set (the targets) then []
         else [report (current @ [n])])
      else find_mulesoft_projects_recursive max_depth targets (current @ [n]) es)"
  by pat_completeness auto
termination
  by (relation "measure (\<lambda>x. case x of
        Inl (m, t, c, items) \<Rightarrow> 3 * size_list size items + 2
      | Inr (Inl (m, t, c, items)) \<Rightarrow> 3 * size_list size items + 1
      | Inr (Inr (m, t, c, item)) \<Rightarrow> 3 * size item)") auto

section \<open>Notions used to state the properties\<close>




text \<open>A prefix dictionary none of whose connector names is reserved.\<close>

definition no_reserved :: "(string \<times> string) list \<Rightarrow> bool" where
  "no_reserved ns = (set (map snd ns) \<inter> set reserved_names = {})"


text \<open>
  A directory listing in which no two entries of one directory share a name, as in a
  file system.
\<close>

fun unique_names :: "entry list \<Rightarrow> bool"
  and unique_inside :: "entry \<Rightarrow> bool" where
  "unique_names [] = True"
| "unique_names (e # es) =
     (entry_name e \<notin> set (map entry_name es) \<and> unique_inside e \<and> unique_names es)"
| "unique_inside (File n) = True"
| "unique_inside (Dir n sub) = unique_names sub"

text \<open>
  The entries of the directory at a relative path, and whether that directory passes
  the project test.
\<close>

fun entries_at :: "entry list \<Rightarrow> string list \<Rightarrow> entry list option" where
  "entries_at es [] = Some es"
| "entries_at es (n # rest) =
     (case find (\<lambda>e. entry_name e = n) es of
        None \<Rightarrow> None
      | Some (File m) \<Rightarrow> None
      | Some (Dir m sub) \<Rightarrow> entries_at sub rest)"

definition classified_project :: "entry list \<Rightarrow> string list \<Rightarrow> bool" where
  "classified_project items path =
     (case entries_at items path of None \<Rightarrow> False | Some es \<Rightarrow> is_mulesoft_project es)"

definition ancestors_clear :: "entry list \<Rightarrow> string list \<Rightarrow> bool" where
  "ancestors_clear items path =
     (\<forall>k. 0 < k \<and> k < length path \<longrightarrow> \<not> classified_project items (take k path))"

section \<open>Sample inputs\<close>

text \<open>A matcher that finds nothing, for the examples that do not concern the scanner.\<close>

definition no_matches :: "dw_pattern \<Rightarrow> string \<Rightarrow> string list" where
  "no_matches pat text = []"

definition parsed_file :: "string \<Rightarrow> element \<Rightarrow> xml_file" where
  "parsed_file text root =
     \<lparr>file_name = ''config.xml'', file_path = ''src/main/mule/config.xml'',
      content = Some text, document = Some root\<rparr>"


text \<open>A document of four elements: a flow holding a logger, and a sub-flow.\<close>

definition small_document :: element where
  "small_document =
     Element ''mule'' []
       [Element ''flow'' [] [Element ''logger'' [] []], Element ''sub-flow'' [] []]"

text \<open>A document that is a single \<open>flow\<close> element.\<close>

definition lone_flow :: element where
  "lone_flow = Element ''flow'' [] []"

text \<open>
  The scenario document: a bare \<open>flow\<close> root holding one \<open>select\<close> element of the
  \<open>db\<close> namespace, the root carrying the attributes \<open>atts\<close>.
\<close>

definition db_select_document :: "(string \<times> string) list \<Rightarrow> element" where
  "db_select_document atts =
     Element ''flow'' atts [Element ''{http://www.mulesoft.org/schema/mule/db}select'' [] []]"

text \<open>
  What \<open>ET.parse\<close> returns for
  \<^verbatim>\<open><mule xmlns="http://www.mulesoft.org/schema/mule/core"
        xmlns:db="http://www.mulesoft.org/schema/mule/db"><db:select/></mule>\<close>:
  the namespace declarations are consumed by the parser and are not attributes of the
  root.
\<close>

definition declared_db_document :: element where
  "declared_db_document =
     Element ''{http://www.mulesoft.org/schema/mule/core}mule'' []
       [Element ''{http://www.mulesoft.org/schema/mule/db}select'' [] []]"

text \<open>A project five directories below the repository folder.\<close>

definition deep_tree :: "entry list" where
  "deep_tree =
     [Dir ''a'' [Dir ''b'' [Dir ''c'' [Dir ''d'' [Dir ''e'' [File ''pom.xml'']]]]]]"

text \<open>A project that holds a directory which passes the project test itself.\<close>

definition nested_tree :: "entry list" where
  "nested_tree =
     [Dir ''team'' [Dir ''app'' [File ''pom.xml'', Dir ''vendored'' [File ''pom.xml'']]]]"

section \<open>The indexed split is in range\<close>

text \<open>
  Where the source takes \<open>key.split(':')[1]\<close>, the key starts with \<open>xmlns:\<close>, so the
  split has a second field and no \<open>IndexError\<close> can arise.
\<close>

lemma split_from_nonempty: "split_from sep cur s \<noteq> []"
  by (induction s arbitrary: cur) simp_all

lemma xmlns_key_has_prefix:
  assumes "startswith key ''xmlns:''"
  shows "1 < length (split_on CHR '':'' key)"
proof -
  from assms have t: "take (length ''xmlns:'') key = ''xmlns:''"
    unfolding startswith_def .
  have "key = take (length ''xmlns:'') key @ drop (length ''xmlns:'') key"
    by (rule append_take_drop_id [symmetric])
  then have "key = ''xmlns:'' @ drop (length ''xmlns:'') key"
    by (simp only: t)
  then obtain rest where k: "key = ''xmlns:'' @ rest" ..
  have "split_on CHR '':'' key = ''xmlns'' # split_from CHR '':'' [] rest"
    by (simp add: k split_on_def)
  with split_from_nonempty [of "CHR '':''" "[]" rest] show ?thesis
    by (cases "split_from CHR '':'' [] rest") simp_all
qed

section \<open>Element counts of a parsed file\<close>


lemma iter_root: "iter e = e # concat (map iter (children e))"
  by (cases e) simp

lemma fold_count_flow:
  "fold count_flow es (a, b) =
     (a + int (length (filter (\<lambda>e. is_flow (tag e)) es)),
      b + int (length (filter (\<lambda>e. \<not> is_flow (tag e) \<and> is_subflow (tag e)) es)))"
  by (induction es arbitrary: a b) (simp_all add: count_flow_def)

lemma filter_disjoint_le:
  "length (filter P es) + length (filter (\<lambda>e. \<not> P e \<and> Q e) es) \<le> length es"
  by (induction es) auto

lemma analyze_parsed:
  assumes "content f = Some text" "document f = Some root"
  shows "fst (analyze_xml_file f) =
           analyze_document root (empty_file_analysis\<lparr>line_count := int (length (splitlines text))\<rparr>)"
  using assms by (simp add: analyze_xml_file_def)



text \<open>
  C7, as stated: for every parsed document the flow count plus the sub-flow count is at
  most \<open>components\<close>. It fails when the root is itself a flow: the flow loop counts the
  root, the component count leaves it out. A document that is one \<open>flow\<close> element has
  one flow and no component.
\<close>

theorem flows_exceed_components_counterexample:
  "flows (fst (analyze_xml_file (parsed_file ''<flow/>'' lone_flow))) = 1
   \<and> subflows (fst (analyze_xml_file (parsed_file ''<flow/>'' lone_flow))) = 0
   \<and> components (fst (analyze_xml_file (parsed_file ''<flow/>'' lone_flow))) = 0
   \<and> \<not> flows (fst (analyze_xml_file (parsed_file ''<flow/>'' lone_flow)))
         + subflows (fst (analyze_xml_file (parsed_file ''<flow/>'' lone_flow)))
         \<le> components (fst (analyze_xml_file (parsed_file ''<flow/>'' lone_flow)))"
  by (simp add: analyze_xml_file_def analyze_document_def parsed_file_def lone_flow_def
      count_flow_def is_flow_def)

text \<open>
  C7, amended. For a file that is read and whose document parses, the flow count plus
  the sub-flow count is at most the number of elements (\<open>components + 1\<close>), and at most
  \<open>components\<close> when the root is neither a flow nor a sub-flow.
\<close>

theorem flows_and_subflows_bounded:
  assumes "content f = Some text" "document f = Some root"
  shows "flows (fst (analyze_xml_file f)) + subflows (fst (analyze_xml_file f))
           \<le> components (fst (analyze_xml_file f)) + 1
       \<and> (\<not> is_flow (tag root) \<and> \<not> is_subflow (tag root) \<longrightarrow>
            flows (fst (analyze_xml_file f)) + subflows (fst (analyze_xml_file f))
              \<le> components (fst (analyze_xml_file f)))"
proof -
  let ?rest = "concat (map iter (children root))"
  have i: "iter root = root # ?rest" by (rule iter_root)
  have le: "length (filter (\<lambda>e. is_flow (tag e)) es)
            + length (filter (\<lambda>e. \<not> is_flow (tag e) \<and> is_subflow (tag e)) es) \<le> length es" for es
    by (rule filter_disjoint_le)
  have a: "flows (fst (analyze_xml_file f)) = int (length (filter (\<lambda>e. is_flow (tag e)) (iter root)))"
    by (simp add: analyze_parsed [OF assms] analyze_document_def fold_count_flow)
  have b: "subflows (fst (analyze_xml_file f)) =
             int (length (filter (\<lambda>e. \<not> is_flow (tag e) \<and> is_subflow (tag e)) (iter root)))"
    by (simp add: analyze_parsed [OF assms] analyze_document_def fold_count_flow)
  have c: "components (fst (analyze_xml_file f)) = int (length (iter root)) - 1"
    by (simp add: analyze_parsed [OF assms] analyze_document_def split: prod.split)
  have first: "flows (fst (analyze_xml_file f)) + subflows (fst (analyze_xml_file f))
           \<le> components (fst (analyze_xml_file f)) + 1"
    unfolding a b c using le [of "iter root"] by linarith
  have second: "flows (fst (analyze_xml_file f)) + subflows (fst (analyze_xml_file f))
              \<le> components (fst (analyze_xml_file f))"
    if "\<not> is_flow (tag root)" "\<not> is_subflow (tag root)"
    unfolding a b c i using that le [of ?rest] by simp
  from first second show ?thesis by blast
qed

theorem flows_and_subflows_bounded_witness:
  "content (parsed_file ''<mule/>'' small_document) = Some ''<mule/>''
   \<and> document (parsed_file ''<mule/>'' small_document) = Some small_document
   \<and> \<not> is_flow (tag small_document) \<and> \<not> is_subflow (tag small_document)
   \<and> flows (fst (analyze_xml_file (parsed_file ''<mule/>'' small_document)))
       + subflows (fst (analyze_xml_file (parsed_file ''<mule/>'' small_document)))
       \<le> components (fst (analyze_xml_file (parsed_file ''<mule/>'' small_document)))"
proof -
  have r: "\<not> is_flow (tag small_document) \<and> \<not> is_subflow (tag small_document)"
    by (simp add: small_document_def is_flow_def is_subflow_def endswith_def)
  have c: "content (parsed_file ''<mule/>'' small_document) = Some ''<mule/>''"
    and d: "document (parsed_file ''<mule/>'' small_document) = Some small_document"
    by (simp_all add: parsed_file_def)
  from flows_and_subflows_bounded [OF c d] r c d show ?thesis by blast
qed

section \<open>The two usage dictionaries grow together\<close>






lemma record_file_usage:
  "connector_usage_count (record_file f a) = connector_usage_count a"
  "component_types (record_file f a) = component_types a"
  "unique_connectors (record_file f a) = unique_connectors a"
  by (simp_all add: record_file_def Let_def split: prod.split)

lemma dataweave_usage:
  "connector_usage_count (analyze_dataweave_in_xml F f a) = connector_usage_count a"
  "component_types (analyze_dataweave_in_xml F f a) = component_types a"
  "unique_connectors (analyze_dataweave_in_xml F f a) = unique_connectors a"
  by (simp_all add: analyze_dataweave_in_xml_def split: option.split prod.split)




section \<open>The reserved name is never a connector in use\<close>

lemma update_values: "set (map snd (AList.update k v d)) \<subseteq> insert v (set (map snd d))"
  by (induction d) auto

lemma no_reserved_Nil: "no_reserved []"
  by (simp add: no_reserved_def)

lemma no_reserved_update:
  "no_reserved d \<Longrightarrow> v \<notin> set reserved_names \<Longrightarrow> no_reserved (AList.update k v d)"
  unfolding no_reserved_def using update_values [of k v d] by blast

lemma xmlns_values: "no_reserved ns \<Longrightarrow> no_reserved (namespaces_from_xmlns atts ns)"
  by (induction atts ns rule: namespaces_from_xmlns.induct) (simp_all add: no_reserved_update)

lemma schema_values: "no_reserved ns \<Longrightarrow> no_reserved (namespaces_from_schema atts parts ns)"
  by (induction atts parts ns rule: namespaces_from_schema.induct)
    (simp_all add: no_reserved_update split: option.split)

lemma declared_values: "no_reserved (declared_namespaces root)"
  by (simp add: declared_namespaces_def Let_def xmlns_values schema_values no_reserved_Nil)

lemma fold_attribute_unique:
  "unique_connectors (fold (attribute_element ns) es a) = unique_connectors a"
  by (induction es arbitrary: a) (simp_all add: attribute_element_def Let_def split: prod.split)

lemma extract_unique:
  "''core'' \<notin> unique_connectors a \<Longrightarrow> ''core'' \<notin> unique_connectors (extract_connectors_from_xml f a)"
  using declared_values [of "the (document f)"]
  by (auto simp: extract_connectors_from_xml_def Let_def fold_attribute_unique reserved_names_def
      no_reserved_def split: option.split)

lemma one_file_unique:
  "''core'' \<notin> unique_connectors a \<Longrightarrow> ''core'' \<notin> unique_connectors (analyze_one_file F f a)"
  by (simp add: analyze_one_file_def dataweave_usage extract_unique record_file_usage)

text \<open>
  C4. Whatever the configuration files of a project hold, \<open>core\<close> is not among its
  \<open>unique_connectors\<close>: both passes that fill the prefix dictionary skip the names
  \<open>core\<close> and \<open>documentation\<close>, and the list is the union of the dictionaries' values.
\<close>

theorem core_never_unique_connector:
  "''core'' \<notin> unique_connectors (analyze_configuration_files F fs new_project)"
proof -
  have "''core'' \<notin> unique_connectors (fold (analyze_one_file F) fs a)"
    if "''core'' \<notin> unique_connectors a" for a
    using that by (induction fs arbitrary: a) (simp_all add: one_file_unique)
  moreover have "''core'' \<notin> unique_connectors new_project"
    by (simp add: new_project_def)
  ultimately show ?thesis
    by (simp add: analyze_configuration_files_def)
qed

section \<open>The scenario document and the resolver\<close>

lemma mule_uri_db: "mule_uri ''http://www.mulesoft.org/schema/mule/db''"
  by (simp add: mule_uri_def startswith_def)

lemma last_segment_db: "last_segment ''http://www.mulesoft.org/schema/mule/db'' = ''db''"
  by (simp add: last_segment_def split_on_def)

lemma connector_of_flow: "connector_of ns ''flow'' = (Some ''core'', ''flow'')"
  by (simp add: connector_of_def)

lemma connector_of_select:
  "connector_of ns ''{http://www.mulesoft.org/schema/mule/db}select'' = (Some ''db'', ''select'')"
  by (simp add: connector_of_def rsplit1_def mule_uri_db last_segment_db reserved_names_def)

lemma attribute_flow:
  "attribute_element ns (Element ''flow'' atts cs) a =
     a\<lparr>connector_usage_count := bump ''core'' (connector_usage_count a),
       component_types := bump ''flow'' (component_types a)\<rparr>"
  by (simp add: attribute_element_def connector_of_flow truthy_def)

lemma attribute_select:
  "attribute_element ns (Element ''{http://www.mulesoft.org/schema/mule/db}select'' atts cs) a =
     a\<lparr>connector_usage_count := bump ''db'' (connector_usage_count a),
       component_types := bump ''db:select'' (component_types a)\<rparr>"
  by (simp add: attribute_element_def connector_of_select truthy_def)

lemma extract_db_select:
  assumes "document f = Some (db_select_document atts)"
  shows "connector_usage_count (extract_connectors_from_xml f a) =
           bump ''db'' (bump ''core'' (connector_usage_count a))"
    and "component_types (extract_connectors_from_xml f a) =
           bump ''db:select'' (bump ''flow'' (component_types a))"
  using assms
  by (simp_all add: extract_connectors_from_xml_def db_select_document_def Let_def
      attribute_flow attribute_select)

lemma flows_db_select:
  "flows (fst (analyze_xml_file (parsed_file text (db_select_document atts)))) = 1"
  by (simp add: analyze_xml_file_def analyze_document_def parsed_file_def db_select_document_def
      count_flow_def is_flow_def is_subflow_def endswith_def Let_def)

lemma attribute_element_frame:
  "total_flows (attribute_element ns e a) = total_flows a"
  "total_subflows (attribute_element ns e a) = total_subflows a"
  "total_components (attribute_element ns e a) = total_components a"
  "configuration_files (attribute_element ns e a) = configuration_files a"
  "large_files (attribute_element ns e a) = large_files a"
  "printed (attribute_element ns e a) = printed a"
  "inline_dw_expressions_count (attribute_element ns e a) = inline_dw_expressions_count a"
  "complex_transformations (attribute_element ns e a) = complex_transformations a"
  "total_dw_lines (attribute_element ns e a) = total_dw_lines a"
  by (simp_all add: attribute_element_def Let_def split: prod.split)

lemma fold_attribute_frame:
  "total_flows (fold (attribute_element ns) es a) = total_flows a"
  "total_subflows (fold (attribute_element ns) es a) = total_subflows a"
  "total_components (fold (attribute_element ns) es a) = total_components a"
  "configuration_files (fold (attribute_element ns) es a) = configuration_files a"
  "large_files (fold (attribute_element ns) es a) = large_files a"
  "printed (fold (attribute_element ns) es a) = printed a"
  "inline_dw_expressions_count (fold (attribute_element ns) es a) = inline_dw_expressions_count a"
  "complex_transformations (fold (attribute_element ns) es a) = complex_transformations a"
  "total_dw_lines (fold (attribute_element ns) es a) = total_dw_lines a"
  by (induction es arbitrary: a) (simp_all add: attribute_element_frame)

lemma extract_frame:
  "total_flows (extract_connectors_from_xml f a) = total_flows a"
  "total_subflows (extract_connectors_from_xml f a) = total_subflows a"
  "total_components (extract_connectors_from_xml f a) = total_components a"
  "configuration_files (extract_connectors_from_xml f a) = configuration_files a"
  "large_files (extract_connectors_from_xml f a) = large_files a"
  "inline_dw_expressions_count (extract_connectors_from_xml f a) = inline_dw_expressions_count a"
  "complex_transformations (extract_connectors_from_xml f a) = complex_transformations a"
  "total_dw_lines (extract_connectors_from_xml f a) = total_dw_lines a"
  by (simp_all add: extract_connectors_from_xml_def Let_def fold_attribute_frame split: option.split)

lemma dataweave_frame:
  "total_flows (analyze_dataweave_in_xml F f a) = total_flows a"
  "total_subflows (analyze_dataweave_in_xml F f a) = total_subflows a"
  "total_components (analyze_dataweave_in_xml F f a) = total_components a"
  "configuration_files (analyze_dataweave_in_xml F f a) = configuration_files a"
  "large_files (analyze_dataweave_in_xml F f a) = large_files a"
  by (simp_all add: analyze_dataweave_in_xml_def split: option.split prod.split)

lemma record_file_totals:
  "total_flows (record_file f a) = total_flows a + flows (fst (analyze_xml_file f))"
  "total_subflows (record_file f a) = total_subflows a + subflows (fst (analyze_xml_file f))"
  "total_components (record_file f a) = total_components a + components (fst (analyze_xml_file f))"
  by (simp_all add: record_file_def Let_def split: prod.split)

lemma one_file_flows:
  "total_flows (analyze_one_file F f a) = total_flows a + flows (fst (analyze_xml_file f))"
  "total_subflows (analyze_one_file F f a) = total_subflows a + subflows (fst (analyze_xml_file f))"
  "total_components (analyze_one_file F f a) = total_components a + components (fst (analyze_xml_file f))"
  by (simp_all add: analyze_one_file_def dataweave_frame extract_frame record_file_totals)

lemma one_file_db_select:
  "connector_usage_count (analyze_one_file F (parsed_file text (db_select_document atts)) a)
     = bump ''db'' (bump ''core'' (connector_usage_count a))"
  "component_types (analyze_one_file F (parsed_file text (db_select_document atts)) a)
     = bump ''db:select'' (bump ''flow'' (component_types a))"
proof -
  let ?f = "parsed_file text (db_select_document atts)"
  have d: "document ?f = Some (db_select_document atts)"
    by (simp add: parsed_file_def)
  show "connector_usage_count (analyze_one_file F ?f a)
          = bump ''db'' (bump ''core'' (connector_usage_count a))"
    by (simp add: analyze_one_file_def dataweave_usage extract_db_select [OF d] record_file_usage)
  show "component_types (analyze_one_file F ?f a)
          = bump ''db:select'' (bump ''flow'' (component_types a))"
    by (simp add: analyze_one_file_def dataweave_usage extract_db_select [OF d] record_file_usage)
qed

text \<open>
  C8, as stated: the scenario document yields \<open>connector_usage_count = {db: 1}\<close> and
  \<open>component_types = {db:select: 1}\<close>. It fails: the bare \<open>flow\<close> element is attributed
  to \<open>core\<close> and counted in both dictionaries, whether or not the root's attribute
  list carries the \<open>xmlns:db\<close> declaration.
\<close>

theorem db_select_scenario_counterexample:
  "connector_usage_count
     (analyze_one_file no_matches
        (parsed_file ''<flow/>''
           (db_select_document [(''xmlns:db'', ''http://www.mulesoft.org/schema/mule/db'')]))
        new_project) = [(''core'', 1), (''db'', 1)]
   \<and> component_types
     (analyze_one_file no_matches
        (parsed_file ''<flow/>''
           (db_select_document [(''xmlns:db'', ''http://www.mulesoft.org/schema/mule/db'')]))
        new_project) = [(''flow'', 1), (''db:select'', 1)]
   \<and> connector_usage_count
     (analyze_one_file no_matches (parsed_file ''<flow/>'' (db_select_document [])) new_project)
       = [(''core'', 1), (''db'', 1)]
   \<and> component_types
     (analyze_one_file no_matches (parsed_file ''<flow/>'' (db_select_document [])) new_project)
       = [(''flow'', 1), (''db:select'', 1)]"
  by (simp add: one_file_db_select new_project_def bump_def dict_get_def)

text \<open>
  C8, amended. For the document that is a bare \<open>flow\<close> element holding one \<open>select\<close>
  element of the namespace \<open>http://www.mulesoft.org/schema/mule/db\<close>, whatever the
  attributes of the root, the text of the file and the matcher: one flow,
  \<open>connector_usage_count = {core: 1, db: 1}\<close> and
  \<open>component_types = {flow: 1, db:select: 1}\<close>.
\<close>

theorem db_select_scenario:
  "total_flows (analyze_one_file F (parsed_file text (db_select_document atts)) new_project) = 1
   \<and> connector_usage_count (analyze_one_file F (parsed_file text (db_select_document atts)) new_project)
       = [(''core'', 1), (''db'', 1)]
   \<and> component_types (analyze_one_file F (parsed_file text (db_select_document atts)) new_project)
       = [(''flow'', 1), (''db:select'', 1)]"
proof -
  let ?r = "analyze_one_file F (parsed_file text (db_select_document atts)) new_project"
  have "total_flows ?r = 1"
    by (simp add: one_file_flows flows_db_select new_project_def)
  moreover have "connector_usage_count ?r = bump ''db'' (bump ''core'' [])"
    by (simp add: one_file_db_select new_project_def)
  moreover have "bump ''db'' (bump ''core'' []) = [(''core'', 1), (''db'', 1)]"
    by (simp add: bump_def dict_get_def)
  moreover have "component_types ?r = bump ''db:select'' (bump ''flow'' [])"
    by (simp add: one_file_db_select new_project_def)
  moreover have "bump ''db:select'' (bump ''flow'' []) = [(''flow'', 1), (''db:select'', 1)]"
    by (simp add: bump_def dict_get_def)
  ultimately show ?thesis by simp
qed

lemma mule_uri_core: "mule_uri ''http://www.mulesoft.org/schema/mule/core''"
  by (simp add: mule_uri_def startswith_def)

lemma last_segment_core: "last_segment ''http://www.mulesoft.org/schema/mule/core'' = ''core''"
  by (simp add: last_segment_def split_on_def)

lemma one_file_unique_connectors:
  "unique_connectors (analyze_one_file F f a) = unique_connectors (extract_connectors_from_xml f a)"
  by (simp add: analyze_one_file_def dataweave_usage extract_connectors_from_xml_def Let_def
      fold_attribute_unique record_file_usage split: option.split)

text \<open>
  C9, at the document \<open>declared_db_document\<close>, which declares the prefix \<open>db\<close> with
  \<open>xmlns:db\<close> and has no schema location. Both passes look for \<open>xmlns:\<close> keys in the
  attributes of the root; the parsed root has none, so no URI is resolved, no connector
  is in use, and the \<open>select\<close> element is tallied under the unresolved key \<open>db (ns:)\<close>.
\<close>

theorem declared_prefix_not_resolved:
  "resolve_namespaces declared_db_document = []
   \<and> declared_namespaces declared_db_document = []
   \<and> unique_connectors (analyze_one_file F (parsed_file text declared_db_document) new_project) = {}
   \<and> xml_tags_by_namespace (fst (analyze_xml_file (parsed_file text declared_db_document)))
       = [(''core (ns:)'', [(''mule'', 1)]), (''db (ns:)'', [(''select'', 1)])]"
proof -
  have r: "resolve_namespaces declared_db_document = []"
    by (simp add: resolve_namespaces_def declared_db_document_def dict_get_def)
  have n: "declared_namespaces declared_db_document = []"
    by (simp add: declared_namespaces_def declared_db_document_def dict_get_def)
  have u: "unique_connectors (analyze_one_file F (parsed_file text declared_db_document) new_project) = {}"
    by (simp add: one_file_unique_connectors extract_connectors_from_xml_def parsed_file_def n
        fold_attribute_unique new_project_def)
  have c1: "classify_tag [] ''{http://www.mulesoft.org/schema/mule/core}mule'' = (''core (ns:)'', ''mule'')"
    by (simp add: classify_tag_def rsplit1_def mule_uri_core last_segment_core)
  have c2: "classify_tag [] ''{http://www.mulesoft.org/schema/mule/db}select'' = (''db (ns:)'', ''select'')"
    by (simp add: classify_tag_def rsplit1_def mule_uri_db last_segment_db)
  have t: "xml_tags_by_namespace (fst (analyze_xml_file (parsed_file text declared_db_document)))
       = fold (tally_element []) (iter declared_db_document) []"
    by (simp add: analyze_xml_file_def parsed_file_def analyze_document_def r split: prod.split)
  have "fold (tally_element []) (iter declared_db_document) []
       = [(''core (ns:)'', [(''mule'', 1)]), (''db (ns:)'', [(''select'', 1)])]"
    by (simp add: declared_db_document_def tally_element_def c1 c2 dict_get_def)
  with r n u t show ?thesis by simp
qed

text \<open>
  The passes themselves resolve a declaration that is an attribute of the root.
\<close>

lemma attribute_list_is_read:
  "resolve_namespaces (Element t [(''xmlns:db'', ''http://www.mulesoft.org/schema/mule/db'')] cs)
     = [(''http://www.mulesoft.org/schema/mule/db'', \<lparr>prefix = ''db'', connector_name = ''db''\<rparr>)]
   \<and> declared_namespaces (Element t [(''xmlns:db'', ''http://www.mulesoft.org/schema/mule/db'')] cs)
     = [(''db'', ''db'')]"
  by (simp add: resolve_namespaces_def declared_namespaces_def dict_get_def schemaLocation_def
      startswith_def mule_uri_db last_segment_db split_on_def reserved_names_def)

section \<open>A file whose document does not parse\<close>



















section \<open>Project discovery: depth and nesting\<close>

lemma scan_items_member:
  "p \<in> set (scan_items m t cur its) \<Longrightarrow> \<exists>item \<in> set its. p \<in> set (visit_item m t cur item)"
  by (induction its) auto

lemma unique_names_find:
  "unique_names es \<Longrightarrow> e \<in> set es \<Longrightarrow> find (\<lambda>x. entry_name x = entry_name e) es = Some e"
  by (induction es) auto

lemma unique_names_inside:
  "unique_names es \<Longrightarrow> Dir n sub \<in> set es \<Longrightarrow> unique_names sub"
  by (induction es) auto

lemma classified_step:
  assumes "unique_names es" "Dir n sub \<in> set es"
  shows "classified_project es (n # path) = classified_project sub path"
  using unique_names_find [OF assms] by (simp add: classified_project_def)

lemma classified_Nil: "classified_project es [] = is_mulesoft_project es"
  by (simp add: classified_project_def)

lemma ancestors_clear_step:
  assumes "unique_names es" "Dir n sub \<in> set es"
    and "q \<noteq> [] \<Longrightarrow> \<not> is_mulesoft_project sub"
    and "ancestors_clear sub q"
  shows "ancestors_clear es (n # q)"
  unfolding ancestors_clear_def
proof (intro allI impI)
  fix k assume k: "0 < k \<and> k < length (n # q)"
  then obtain j where j: "k = Suc j" by (cases k) auto
  with k have jl: "j < length q" by simp
  have "classified_project es (take k (n # q)) = classified_project sub (take j q)"
    by (simp add: j classified_step [OF assms(1,2)])
  moreover have "\<not> classified_project sub (take j q)"
  proof (cases j)
    case 0
    from jl have "q \<noteq> []" by auto
    with assms(3) 0 show ?thesis by (simp add: classified_Nil)
  next
    case (Suc i)
    with jl assms(4) show ?thesis by (simp add: ancestors_clear_def)
  qed
  ultimately show "\<not> classified_project es (take k (n # q))" by simp
qed

lemma visit_item_reports:
  "length cur \<le> m \<Longrightarrow> p \<in> set (visit_item m t cur item) \<Longrightarrow>
   \<exists>n es q. item = Dir n es \<and> relative_path p = cur @ n # q
     \<and> length (relative_path p) \<le> m + 1
     \<and> (q \<noteq> [] \<longrightarrow> \<not> is_mulesoft_project es)
     \<and> (unique_names es \<longrightarrow> ancestors_clear es q)"
proof (induction item arbitrary: cur)
  case (File n)
  then show ?case by simp
next
  case (Dir n es)
  show ?case
  proof (cases "startswith n ''.''")
    case True
    with Dir.prems show ?thesis by simp
  next
    case visible: False
    show ?thesis
    proof (cases "is_mulesoft_project es")
      case True
      with visible Dir.prems have "p = report (cur @ [n])"
        by (simp split: if_splits)
      then have "relative_path p = cur @ [n]"
        by (simp add: report_def)
      with Dir.prems(1) show ?thesis
        by (simp add: ancestors_clear_def)
    next
      case False
      with visible Dir.prems have inner: "p \<in> set (find_mulesoft_projects_recursive m t (cur @ [n]) es)"
        by simp
      then have depth: "length (cur @ [n]) \<le> m"
        by (simp split: if_splits)
      with inner have "p \<in> set (scan_items m t (cur @ [n]) es)"
        by (simp split: if_splits)
      then obtain item where item: "item \<in> set es" "p \<in> set (visit_item m t (cur @ [n]) item)"
        using scan_items_member by blast
      from Dir.IH [OF item(1) depth item(2)]
      obtain n' es' q' where r: "item = Dir n' es'" "relative_path p = (cur @ [n]) @ n' # q'"
        "length (relative_path p) \<le> m + 1"
        "q' \<noteq> [] \<longrightarrow> \<not> is_mulesoft_project es'"
        "unique_names es' \<longrightarrow> ancestors_clear es' q'"
        by blast
      have "ancestors_clear es (n' # q')" if u: "unique_names es"
      proof (rule ancestors_clear_step [OF u])
        show "Dir n' es' \<in> set es" using item(1) r(1) by simp
        show "\<not> is_mulesoft_project es'" if "q' \<noteq> []" using that r(4) by simp
        show "ancestors_clear es' q'"
          using r(5) unique_names_inside [OF u] item(1) r(1) by blast
      qed
      with r False show ?thesis by simp
    qed
  qed
qed

lemma discovery_reports:
  assumes "p \<in> set (find_mulesoft_projects_recursive max_depth targets [] items)"
  shows "length (relative_path p) \<le> max_depth + 1"
    and "unique_names items \<Longrightarrow> ancestors_clear items (relative_path p)"
proof -
  from assms have "p \<in> set (scan_items max_depth targets [] items)"
    by simp
  then obtain item where item: "item \<in> set items" "p \<in> set (visit_item max_depth targets [] item)"
    using scan_items_member by blast
  have "length ([] :: string list) \<le> max_depth" by simp
  from visit_item_reports [OF this item(2)]
  have "\<exists>n es q. item = Dir n es \<and> relative_path p = n # q
     \<and> length (relative_path p) \<le> max_depth + 1
     \<and> (q \<noteq> [] \<longrightarrow> \<not> is_mulesoft_project es)
     \<and> (unique_names es \<longrightarrow> ancestors_clear es q)"
    by simp
  then obtain n es q where r: "item = Dir n es" "relative_path p = n # q"
    "length (relative_path p) \<le> max_depth + 1"
    "q \<noteq> [] \<longrightarrow> \<not> is_mulesoft_project es"
    "unique_names es \<longrightarrow> ancestors_clear es q"
    by blast
  show "length (relative_path p) \<le> max_depth + 1" by (rule r(3))
  show "ancestors_clear items (relative_path p)" if u: "unique_names items"
    unfolding r(2)
  proof (rule ancestors_clear_step [OF u])
    show "Dir n es \<in> set items" using item(1) r(1) by simp
    show "\<not> is_mulesoft_project es" if "q \<noteq> []" using that r(4) by simp
    show "ancestors_clear es q"
      using r(5) unique_names_inside [OF u] item(1) r(1) by blast
  qed
qed

text \<open>
  C3, amended. Every project the walker reports lies at most one level below the
  configured maximum (the bound is tested on the directory being listed, and the
  entries of a directory at the bound are still examined); and, in a tree whose
  sibling names are distinct, no directory above a reported project passes the project
  test: the walker never descends into a directory it has classified as a project.
\<close>

theorem discovery_depth_and_no_nesting:
  "\<forall>p \<in> set (find_mulesoft_projects_recursive max_depth targets [] items).
     length (relative_path p) \<le> max_depth + 1
     \<and> (unique_names items \<longrightarrow>
          (\<forall>k. 0 < k \<and> k < length (relative_path p) \<longrightarrow>
               \<not> classified_project items (take k (relative_path p))))"
  using discovery_reports by (auto simp: ancestors_clear_def)

text \<open>
  C3, as stated: with the default maximum depth 4 no project is reported at a depth
  greater than 4. It fails: a project five directories below the repository folder is
  reported.
\<close>

lemma deep_tree_report:
  "find_mulesoft_projects_recursive 4 None [] deep_tree = [report [''a'', ''b'', ''c'', ''d'', ''e'']]"
  unfolding deep_tree_def by (simp add: startswith_def is_mulesoft_project_def filtering_def)

theorem discovery_depth_counterexample:
  "map relative_path (find_mulesoft_projects_recursive 4 None [] deep_tree)
     = [[''a'', ''b'', ''c'', ''d'', ''e'']]
   \<and> \<not> length [''a'', ''b'', ''c'', ''d'', ''e''] \<le> (4::nat)"
  unfolding deep_tree_report by (simp add: report_def)

lemma nested_tree_report:
  "find_mulesoft_projects_recursive 4 None [] nested_tree = [report [''team'', ''app'']]"
  unfolding nested_tree_def by (simp add: startswith_def is_mulesoft_project_def filtering_def)

theorem discovery_depth_and_no_nesting_witness:
  "report [''team'', ''app''] \<in> set (find_mulesoft_projects_recursive 4 None [] nested_tree)
   \<and> unique_names nested_tree
   \<and> classified_project nested_tree [''team'', ''app'', ''vendored'']
   \<and> length (relative_path (report [''team'', ''app''])) \<le> 5
   \<and> \<not> classified_project nested_tree [''team'']"
proof -
  have m: "report [''team'', ''app''] \<in> set (find_mulesoft_projects_recursive 4 None [] nested_tree)"
    unfolding nested_tree_report by simp
  have u: "unique_names nested_tree"
    by (simp add: nested_tree_def)
  have v: "classified_project nested_tree [''team'', ''app'', ''vendored'']"
    by (simp add: classified_project_def nested_tree_def is_mulesoft_project_def)
  have r: "relative_path (report [''team'', ''app'']) = [''team'', ''app'']"
    by (simp add: report_def)
  from discovery_depth_and_no_nesting [of 4 None nested_tree, THEN bspec, OF m] u
  have "length (relative_path (report [''team'', ''app''])) \<le> 4 + 1"
    and "\<forall>k. 0 < k \<and> k < length (relative_path (report [''team'', ''app''])) \<longrightarrow>
           \<not> classified_project nested_tree (take k (relative_path (report [''team'', ''app''])))"
    by blast+
  from this(1) this(2) [THEN spec, of 1] m u v show ?thesis
    by (simp add: r)
qed

end
